theory Spec2Isabelle
  imports Main "HOL-Library.Sublist"
begin

section \<open>Python strings\<close>

text \<open>
  A Python \<open>str\<close> is modelled as a \<open>string\<close>; a character stands for one code point
  (below 256). \<open>None\<close> is the \<open>None\<close> of an option type.
\<close>

definition newline :: char where
  "newline = CHR 0x0A"

text \<open>\<open>s.startswith(p)\<close> for a single prefix.\<close>

definition startswith :: "string \<Rightarrow> string \<Rightarrow> bool" where
  "startswith s p = (take (length p) s = p)"

text \<open>\<open>s.startswith((p1, p2, ...))\<close>: true when some member of the tuple is a prefix.\<close>

definition startswith_any :: "string \<Rightarrow> string list \<Rightarrow> bool" where
  "startswith_any s ps = list_ex (startswith s) ps"

text \<open>\<open>str(x)\<close> as an f-string renders it, for a value that is a \<open>str\<close> or \<open>None\<close>.\<close>

fun format_value :: "string option \<Rightarrow> string" where
  "format_value None = ''None''"
| "format_value (Some s) = s"

text \<open>
  \<open>str.isspace\<close> on the code points below 256: the ASCII controls 9-13 and 28-31, the
  space, and the Latin-1 characters 0x85 and 0xA0.
\<close>

definition isspace :: "char \<Rightarrow> bool" where
  "isspace c = (of_char c \<in> set [9, 10, 11, 12, 13, 28, 29, 30, 31, 32, 133, 160 :: nat])"

text \<open>\<open>s.strip()\<close>: whitespace removed at both ends.\<close>

definition strip :: "string \<Rightarrow> string" where
  "strip s = rev (dropWhile isspace (rev (dropWhile isspace s)))"

text \<open>\<open>sep.join(xs)\<close>.\<close>

fun join :: "string \<Rightarrow> string list \<Rightarrow> string" where
  "join sep [] = []"
| "join sep [x] = x"
| "join sep (x # y # ys) = x @ sep @ join sep (y # ys)"

section \<open>Exceptions\<close>

text \<open>
  A raised exception is an instance of \<open>Exception\<close>, given by the name of its class and by
  \<open>str(e)\<close>. (\<open>KeyboardInterrupt\<close> and \<open>SystemExit\<close>, which \<open>except Exception\<close> lets pass,
  come from outside the calls modelled here.)
\<close>

datatype exn = Exception string string

fun str_of :: "exn \<Rightarrow> string" where
  "str_of (Exception c m) = m"

fun class_name :: "exn \<Rightarrow> string" where
  "class_name (Exception c m) = c"

text \<open>What indexing a list out of range raises.\<close>

definition IndexError :: exn where
  "IndexError = Exception ''IndexError'' ''list index out of range''"

text \<open>
  What a call raises when no frame is left for it under Python's recursion limit (the
  message may go on to say where the limit was met).
\<close>

definition RecursionError :: exn where
  "RecursionError = Exception ''RecursionError'' ''maximum recursion depth exceeded''"

section \<open>The parse tree of Beautiful Soup\<close>

text \<open>
  The source works on the tree that \<open>BeautifulSoup(markup, 'html.parser')\<close> returns. The
  library is not part of the repository; the operations the source calls are modelled
  here after the library's documented behaviour.

  A tree node is a \<open>Tag\<close> (with its name and its \<open>contents\<close>) or a string. Strings are
  instances of \<open>NavigableString\<close> or of one of its subclasses: comments, CDATA sections,
  declarations, and the containers the HTML tree builder uses for the text of script,
  style, template, \<open>rt\<close> and \<open>rp\<close> elements. Every node is a Python object; its identity is the first
  field. Attributes of tags are left out: the source never reads them.
\<close>

datatype string_class =
    NavigableString | CData | Comment | Declaration | Doctype | ProcessingInstruction
  | Script | Stylesheet | TemplateString | RubyTextString | RubyParenthesisString

datatype element =
    Tag nat string "element list"
  | Text nat string_class string

text \<open>A soup (the \<open>BeautifulSoup\<close> object) is given by the contents of the document root.\<close>

type_synonym soup = "element list"

fun ident :: "element \<Rightarrow> nat" where
  "ident (Tag i n cs) = i"
| "ident (Text i k s) = i"

fun contents :: "element \<Rightarrow> element list" where
  "contents (Tag i n cs) = cs"
| "contents (Text i k s) = []"

text \<open>\<open>.descendants\<close>: every node below the root, in document order.\<close>

fun descendants :: "element list \<Rightarrow> element list" where
  "descendants [] = []"
| "descendants (Tag i n cs # rest) = Tag i n cs # descendants cs @ descendants rest"
| "descendants (Text i k s # rest) = Text i k s # descendants rest"

text \<open>Object identities are pairwise different.\<close>

definition wellformed :: "soup \<Rightarrow> bool" where
  "wellformed sp = distinct (map ident (descendants sp))"

text \<open>\<open>find_all([n1, n2, ...])\<close>: the tags among the descendants whose name is in the list.\<close>

fun name_in :: "string list \<Rightarrow> element \<Rightarrow> bool" where
  "name_in names (Tag i n cs) = (n \<in> set names)"
| "name_in names (Text i k s) = False"

definition find_all :: "string list \<Rightarrow> soup \<Rightarrow> element list" where
  "find_all names sp = filter (name_in names) (descendants sp)"

text \<open>
  \<open>soup.title\<close> and \<open>soup.body\<close> are \<open>soup.find('title')\<close> and \<open>soup.find('body')\<close>: the first
  tag of that name in document order, or \<open>None\<close>. A tag is truthy whatever it contains.
\<close>

definition soup_find :: "string \<Rightarrow> soup \<Rightarrow> element option" where
  "soup_find nm sp = (case find_all [nm] sp of [] \<Rightarrow> None | e # _ \<Rightarrow> Some e)"

text \<open>
  \<open>.string\<close>: a tag with exactly one child has that child as its string when the child is
  a string, and the \<open>.string\<close> of the child when the child is a tag; any other tag has
  \<open>None\<close>. The property calls itself once for every level of an only child that is a tag,
  and each call takes a frame of the Python stack: the first argument is the number of
  such nested calls for which frames are left below the call \<open>soup.title.string\<close> of
  line 111. The call that finds none left raises \<open>RecursionError\<close>.
\<close>

fun tag_string :: "nat \<Rightarrow> element \<Rightarrow> exn + string option" where
  "tag_string d (Text i k s) = Inr (Some s)"
| "tag_string d (Tag i n []) = Inr None"
| "tag_string d (Tag i n [Text j k s]) = Inr (Some s)"
| "tag_string 0 (Tag i n [Tag j m cs]) = Inl RecursionError"
| "tag_string (Suc d) (Tag i n [Tag j m cs]) = tag_string d (Tag j m cs)"
| "tag_string d (Tag i n (c # c' # cs)) = Inr None"

text \<open>
  \<open>e.decompose()\<close> takes the object \<open>e\<close> out of the tree, with everything below it, and
  destroys it. On an object that is no longer in the tree it changes nothing.
\<close>

fun extract_element :: "nat \<Rightarrow> element list \<Rightarrow> element list" where
  "extract_element x [] = []"
| "extract_element x (Tag i n cs # rest) =
     (if i = x then rest else Tag i n (extract_element x cs) # extract_element x rest)"
| "extract_element x (Text i k s # rest) =
     (if i = x then rest else Text i k s # extract_element x rest)"

definition decompose :: "element \<Rightarrow> soup \<Rightarrow> soup" where
  "decompose e sp = extract_element (ident e) sp"

text \<open>
  \<open>tag.get_text(separator, strip=True)\<close> joins the strings of \<open>tag._all_strings(strip=True)\<close>:
  of the descendants of the tag, those whose class is exactly \<open>NavigableString\<close> or
  \<open>CData\<close>, each one stripped, and left out when nothing remains of it.
\<close>

fun stripped :: "element \<Rightarrow> string list" where
  "stripped (Tag i n cs) = []"
| "stripped (Text i k s) =
     (if k \<in> {NavigableString, CData} \<and> strip s \<noteq> [] then [strip s] else [])"

definition all_strings :: "element list \<Rightarrow> string list" where
  "all_strings cs = concat (map stripped (descendants cs))"

definition get_text :: "string \<Rightarrow> element \<Rightarrow> string" where
  "get_text separator e = join separator (all_strings (contents e))"

section \<open>The outside world and its trace\<close>

text \<open>
  \<open>requests.get\<close> returns a response with a status code and the body as bytes.
  \<open>BeautifulSoup\<close> is given bytes (\<open>response.content\<close>) or a \<open>str\<close> (\<open>driver.page_source\<close>).
\<close>

record response =
  status_code :: nat
  content :: string

datatype markup = Bytes string | Str string

text \<open>
  The request of \<open>claude.messages.create\<close> and its answer: a message whose content is a
  list of blocks, each with a \<open>text\<close>. (The request offers no tools, so every block is a
  text block.) A message of the request is a dictionary with the keys \<open>role\<close> and
  \<open>content\<close>.
\<close>

record message_request =
  model :: string
  max_tokens :: nat
  system :: string
  messages :: "(string \<times> string) list list"

datatype TextBlock = TextBlock string

datatype Message = Message "TextBlock list"

text \<open>
  The outside world: what every call of a library returns, or the exception it raises.
  \<open>webdriver_Chrome\<close> stands for line 93-96, the installation of the driver and the start
  of the browser with the given options; when it raises, there is no driver object.
  \<open>recursion_limit\<close> is the number of nested calls of \<open>.string\<close> for which the Python
  stack has frames left when \<open>_process_content\<close> runs (\<open>sys.getrecursionlimit()\<close>, 1000
  unless changed, less the frames in use).
\<close>

record env =
  requests_get :: "string \<Rightarrow> exn + response"
  BeautifulSoup :: "markup \<Rightarrow> exn + soup"
  webdriver_Chrome :: "string list \<Rightarrow> exn + unit"
  driver_get :: "string \<Rightarrow> exn + unit"
  driver_page_source :: "exn + string"
  driver_quit :: "exn + unit"
  messages_create :: "message_request \<Rightarrow> exn + Message"
  recursion_limit :: nat

text \<open>The calls with an effect outside the program, in the order they are made.\<close>

datatype event =
    HttpGet string
  | ChromeLaunch "string list"
  | DriverGet string
  | Sleep nat
  | PageSource
  | DriverQuit
  | MessagesCreate message_request
  | Print string

section \<open>The Website object (summarize2.py, lines 45-118)\<close>

text \<open>
  The attributes \<open>url\<close>, \<open>title\<close> and \<open>text\<close> of class \<open>Website\<close>. The attribute
  \<open>title\<close> receives \<open>soup.title.string\<close>, which Beautiful Soup leaves \<open>None\<close> for some
  title elements, hence the option type.
\<close>

record Website =
  url :: string
  title :: "string option"
  "text" :: string

text \<open>
  Lines 66-68 of \<open>Website.__init__\<close>:
  \<^verbatim>\<open>if not url.startswith(('http://', 'https://')): url = 'https://' + url\<close>
\<close>

definition normalize_url :: "string \<Rightarrow> string" where
  "normalize_url u =
     (if \<not> startswith_any u [''http://'', ''https://''] then ''https://'' @ u else u)"

text \<open>The list of line 114.\<close>

definition irrelevant_names :: "string list" where
  "irrelevant_names = [''script'', ''style'', ''img'', ''input'', ''iframe'', ''noscript'']"

text \<open>
  \<open>Website._process_content\<close> (lines 109-118). The object under construction has its
  \<open>url\<close> already; the method sets \<open>title\<close> and \<open>text\<close>. When \<open>soup.title.string\<close> raises,
  the exception leaves the method before either is set. The loop of lines 114-115 runs
  over the list that \<open>find_all\<close> has returned before the first removal.
\<close>

definition process_content :: "nat \<Rightarrow> string \<Rightarrow> soup \<Rightarrow> exn + Website" where
  "process_content limit self_url sp =
     (case (case soup_find ''title'' sp of
              Some t \<Rightarrow> tag_string limit t
            | None \<Rightarrow> Inr (Some ''No title found'')) of
        Inl e \<Rightarrow> Inl e
      | Inr self_title \<Rightarrow>
          (let sp = fold decompose (find_all irrelevant_names sp) sp;
               self_text = (case soup_find ''body'' sp of
                              Some b \<Rightarrow> get_text [newline] b
                            | None \<Rightarrow> [])
           in Inr \<lparr>url = self_url, title = self_title, text = self_text\<rparr>))"

text \<open>
  \<open>Website._fetch_static\<close> (lines 78-82). The status code is never read. An exception of
  any of the three lines leaves the method.
\<close>

definition fetch_static :: "env \<Rightarrow> string \<Rightarrow> (exn + Website) \<times> event list" where
  "fetch_static env self_url =
     (case requests_get env self_url of
        Inl e \<Rightarrow> (Inl e, [HttpGet self_url])
      | Inr response \<Rightarrow>
          (case BeautifulSoup env (Bytes (content response)) of
             Inl e \<Rightarrow> (Inl e, [HttpGet self_url])
           | Inr sp \<Rightarrow>
               (case process_content (recursion_limit env) self_url sp of
                  Inl e \<Rightarrow> (Inl e, [HttpGet self_url])
                | Inr w \<Rightarrow> (Inr w, [HttpGet self_url]))))"

text \<open>The \<open>try\<close> block of \<open>Website._fetch_dynamic\<close> (lines 99-105).\<close>

definition fetch_dynamic_try :: "env \<Rightarrow> string \<Rightarrow> (exn + Website) \<times> event list" where
  "fetch_dynamic_try env self_url =
     (case driver_get env self_url of
        Inl e \<Rightarrow> (Inl e, [DriverGet self_url])
      | Inr _ \<Rightarrow>
          (case driver_page_source env of
             Inl e \<Rightarrow> (Inl e, [DriverGet self_url, Sleep 5, PageSource])
           | Inr page_source \<Rightarrow>
               (case BeautifulSoup env (Str page_source) of
                  Inl e \<Rightarrow> (Inl e, [DriverGet self_url, Sleep 5, PageSource])
                | Inr sp \<Rightarrow>
                    (case process_content (recursion_limit env) self_url sp of
                       Inl e \<Rightarrow> (Inl e, [DriverGet self_url, Sleep 5, PageSource])
                     | Inr w \<Rightarrow> (Inr w, [DriverGet self_url, Sleep 5, PageSource])))))"

text \<open>
  \<open>Website._fetch_dynamic\<close> (lines 84-107). The driver is created before the \<open>try\<close>; the
  \<open>finally\<close> clause runs \<open>driver.quit()\<close> after the block, however the block ends. An
  exception of \<open>quit\<close> replaces the outcome of the block.
\<close>

definition chrome_options :: "string list" where
  "chrome_options = [''--headless'', ''--disable-gpu'', ''--no-sandbox'', ''--disable-dev-shm-usage'']"

definition fetch_dynamic :: "env \<Rightarrow> string \<Rightarrow> (exn + Website) \<times> event list" where
  "fetch_dynamic env self_url =
     (case webdriver_Chrome env chrome_options of
        Inl e \<Rightarrow> (Inl e, [ChromeLaunch chrome_options])
      | Inr _ \<Rightarrow>
          (let (r, tr) = fetch_dynamic_try env self_url
           in (case driver_quit env of
                 Inl e \<Rightarrow> (Inl e, ChromeLaunch chrome_options # tr @ [DriverQuit])
               | Inr _ \<Rightarrow> (r, ChromeLaunch chrome_options # tr @ [DriverQuit]))))"

text \<open>
  \<open>Website.__init__\<close> (lines 59-76): the URL is normalised, then \<open>try: _fetch_static()\<close>
  \<open>except Exception: _fetch_dynamic()\<close>.
\<close>

definition Website_init :: "env \<Rightarrow> string \<Rightarrow> (exn + Website) \<times> event list" where
  "Website_init env u =
     (let self_url = normalize_url u
      in (case fetch_static env self_url of
            (Inr w, tr) \<Rightarrow> (Inr w, tr)
          | (Inl e, tr) \<Rightarrow>
              (let (r, tr') = fetch_dynamic env self_url in (r, tr @ tr'))))"

section \<open>The prompt (summarize2.py, lines 121-136)\<close>

text \<open>
  The second string literal of \<open>user_prompt_for\<close>. A backslash at the end of a line inside
  a Python string literal joins the lines without a newline; the literal ends in \<open>\n\n\<close>.
\<close>

definition instruction :: string where
  "instruction =
     ''The contents of this website is as follows; '' @
     ''please provide a short summary of this website in markdown. '' @
     ''If it includes news or announcements, then summarize these too.''"

definition user_prompt_for :: "Website \<Rightarrow> string" where
  "user_prompt_for website =
     (let user_prompt = ''You are looking at a website titled '' @ format_value (title website) @ ''. '';
          user_prompt = user_prompt @ (instruction @ [newline, newline]);
          user_prompt = user_prompt @ text website
      in user_prompt)"

section \<open>The request and the command line (summarize2.py, lines 139-192)\<close>

definition system_prompt :: string where
  "system_prompt =
     ''You are an assistant that analyzes the contents of a website and provides '' @
     ''a short summary, ignoring text that might be navigation related. Respond in markdown.''"

text \<open>\<open>summarize\<close> (lines 139-167). The last line is \<open>response.content[0].text\<close>.\<close>

definition summarize :: "env \<Rightarrow> string \<Rightarrow> (exn + string) \<times> event list" where
  "summarize env u =
     (case Website_init env u of
        (Inl e, tr) \<Rightarrow> (Inl e, tr)
      | (Inr website, tr) \<Rightarrow>
          (let request = \<lparr>model = ''claude-3-opus-20240229'', max_tokens = 1000,
                           system = system_prompt,
                           messages = [[(''role'', ''user''),
                                        (''content'', user_prompt_for website)]]\<rparr>
           in (case messages_create env request of
                 Inl e \<Rightarrow> (Inl e, tr @ [MessagesCreate request])
               | Inr (Message blocks) \<Rightarrow>
                   (case blocks of
                      [] \<Rightarrow> (Inl IndexError, tr @ [MessagesCreate request])
                    | TextBlock t # _ \<Rightarrow> (Inr t, tr @ [MessagesCreate request])))))"

text \<open>The request that \<open>summarize\<close> sends for a website, by name.\<close>

definition summary_request :: "Website \<Rightarrow> message_request" where
  "summary_request website =
     \<lparr>model = ''claude-3-opus-20240229'', max_tokens = 1000, system = system_prompt,
      messages = [[(''role'', ''user''), (''content'', user_prompt_for website)]]\<rparr>"

text \<open>The five lines printed for a wrong number of arguments (lines 179-183).\<close>

definition usage :: "event list" where
  "usage =
     [Print ''Usage: python summarize.py <url>'',
      Print ''Examples:'',
      Print ''  python summarize.py cnn.com'',
      Print ''  python summarize.py https://www.bbc.com'',
      Print (newline # ''Note: Make sure you have set the ANTHROPIC_API_KEY environment variable'')]"

text \<open>
  \<open>main\<close> (lines 170-192) on \<open>sys.argv\<close>: the trace of the run and the exit code of the
  process (0 when \<open>main\<close> returns, the argument of \<open>sys.exit\<close> otherwise).
\<close>

definition main :: "env \<Rightarrow> string list \<Rightarrow> event list \<times> nat" where
  "main env argv =
     (if length argv \<noteq> 2 then (usage, 1)
      else (let u = argv ! 1
            in (case summarize env u of
                  (Inr summary, tr) \<Rightarrow> (tr @ [Print summary], 0)
                | (Inl e, tr) \<Rightarrow> (tr @ [Print (''Error: '' @ str_of e)], 1))))"

section \<open>The text and the title of a page, as the specification describes them\<close>

text \<open>
  The strings of a forest whose class satisfies \<open>P\<close>, each one trimmed, those of which
  something remains after trimming, in document order, without the strings inside an
  element of an excluded kind.
\<close>

fun visible_of :: "(string_class \<Rightarrow> bool) \<Rightarrow> element list \<Rightarrow> string list" where
  "visible_of P [] = []"
| "visible_of P (Tag i n cs # rest) =
     (if n \<in> set irrelevant_names then [] else visible_of P cs) @ visible_of P rest"
| "visible_of P (Text i k s # rest) =
     (if P k \<and> strip s \<noteq> [] then [strip s] else []) @ visible_of P rest"

text \<open>
  The document body: the contents of the first \<open>body\<close> element, in document order, that is
  not inside an element of an excluded kind.
\<close>

fun document_body :: "element list \<Rightarrow> element list option" where
  "document_body [] = None"
| "document_body (Tag i n cs # rest) =
     (if n \<in> set irrelevant_names then document_body rest
      else if n = ''body'' then Some cs
      else (case document_body cs of
              Some b \<Rightarrow> Some b
            | None \<Rightarrow> document_body rest))"
| "document_body (Text i k s # rest) = document_body rest"

text \<open>
  The text of the specification: every text node under the body counts, whatever element
  outside the six excluded kinds it is in. A text node is a string that is text of the
  page: not a comment, a declaration, a doctype or a processing instruction.
\<close>

definition text_node :: "string_class \<Rightarrow> bool" where
  "text_node k = (k \<notin> {Comment, Declaration, Doctype, ProcessingInstruction})"

definition spec_text :: "soup \<Rightarrow> string" where
  "spec_text sp =
     (case document_body sp of
        None \<Rightarrow> []
      | Some b \<Rightarrow> join [newline] (visible_of text_node b))"

text \<open>
  The text of the amended claim: only strings of class \<open>NavigableString\<close> or \<open>CData\<close>
  count. The HTML tree builder gives the text of \<open>rt\<close>, \<open>rp\<close> and \<open>template\<close> elements
  classes of their own, so that text is left out.
\<close>

definition plain_string :: "string_class \<Rightarrow> bool" where
  "plain_string k = (k \<in> {NavigableString, CData})"

definition plain_text :: "soup \<Rightarrow> string" where
  "plain_text sp =
     (case document_body sp of
        None \<Rightarrow> []
      | Some b \<Rightarrow> join [newline] (visible_of plain_string b))"

text \<open>
  The chain of only children below a tag: its length (the number of tags on it below the
  first), the tag at its end, and the string that tag holds itself.
\<close>

fun chain_length :: "element \<Rightarrow> nat" where
  "chain_length (Tag i n [Tag j m cs]) = Suc (chain_length (Tag j m cs))"
| "chain_length e = 0"

fun chain_end :: "element \<Rightarrow> element" where
  "chain_end (Tag i n [Tag j m cs]) = chain_end (Tag j m cs)"
| "chain_end e = e"

fun own_string :: "element \<Rightarrow> string option" where
  "own_string (Tag i n [Text j k s]) = Some s"
| "own_string (Text i k s) = Some s"
| "own_string e = None"

text \<open>The title lookup of a page fits under the recursion limit.\<close>

definition title_fits :: "nat \<Rightarrow> soup \<Rightarrow> bool" where
  "title_fits limit sp =
     (case soup_find ''title'' sp of
        None \<Rightarrow> True
      | Some t \<Rightarrow> chain_length t \<le> limit)"

section \<open>Auxiliary notions for the removal loop\<close>

text \<open>The identities of all objects of a forest, in document order.\<close>

definition ids :: "element list \<Rightarrow> nat list" where
  "ids f = map ident (descendants f)"

text \<open>The forest without the objects whose identity is in a given set.\<close>

fun prune_ids :: "nat set \<Rightarrow> element list \<Rightarrow> element list" where
  "prune_ids S [] = []"
| "prune_ids S (Tag i n cs # rest) =
     (if i \<in> S then prune_ids S rest else Tag i n (prune_ids S cs) # prune_ids S rest)"
| "prune_ids S (Text i k s # rest) =
     (if i \<in> S then prune_ids S rest else Text i k s # prune_ids S rest)"

text \<open>The forest without the elements of an excluded kind.\<close>

fun prune :: "element list \<Rightarrow> element list" where
  "prune [] = []"
| "prune (Tag i n cs # rest) =
     (if n \<in> set irrelevant_names then prune rest else Tag i n (prune cs) # prune rest)"
| "prune (Text i k s # rest) = Text i k s # prune rest"

text \<open>Two pages for the examples: one with a body, one without.\<close>

definition page_example :: soup where
  "page_example =
     [Tag 1 ''html''
        [Tag 2 ''head'' [Tag 3 ''title'' [Text 4 NavigableString ''Example'']],
         Text 5 NavigableString [newline],
         Tag 6 ''body''
           [Text 7 NavigableString (newline # ''  Hello ''),
            Tag 8 ''script'' [Text 9 Script ''var x;''],
            Tag 10 ''noscript'' [Tag 11 ''img'' [], Text 12 NavigableString ''no js''],
            Tag 13 ''p'' [Text 14 NavigableString ''World'', Text 15 Comment ''c''],
            Text 16 NavigableString [newline],
            Tag 17 ''img'' []]]]"

definition page_without_body :: soup where
  "page_without_body = [Tag 1 ''p'' [Text 2 NavigableString ''orphan'']]"

text \<open>
  A page with a ruby annotation, \<open><body><ruby>k<rt>r</rt></ruby>x</body>\<close>, and a page with
  a title that holds one child element with a string, \<open><title><b>x</b></title>\<close>.
\<close>

definition page_ruby :: soup where
  "page_ruby =
     [Tag 1 ''html''
        [Tag 2 ''body''
           [Tag 3 ''ruby''
              [Text 4 NavigableString ''k'',
               Tag 5 ''rt'' [Text 6 RubyTextString ''r'']],
            Text 7 NavigableString ''x'']]]"

definition page_title_child :: soup where
  "page_title_child = [Tag 1 ''title'' [Tag 2 ''b'' [Text 3 NavigableString ''x'']]]"

text \<open>
  A title that holds \<open>n + 1\<close> elements nested one in the other and no string:
  \<open><title><b><b>...</b></b></title>\<close>.
\<close>

fun nested :: "nat \<Rightarrow> element" where
  "nested 0 = Tag 0 ''b'' []"
| "nested (Suc n) = Tag (Suc n) ''b'' [nested n]"

definition page_deep :: "nat \<Rightarrow> soup" where
  "page_deep n = [Tag (Suc n) ''title'' [nested n]]"

text \<open>The website that \<open>page_example\<close> gives at the address \<open>https://example.com\<close>.\<close>

definition website_example :: Website where
  "website_example =
     \<lparr>url = ''https://example.com'', title = Some ''Example'',
      text = ''Hello'' @ [newline] @ ''World''\<rparr>"

section \<open>Worlds for the examples\<close>

text \<open>A world in which every call succeeds and every page parses to \<open>page_example\<close>.\<close>

definition world_online :: env where
  "world_online =
     \<lparr>requests_get = (\<lambda>u. Inr \<lparr>status_code = 200, content = ''<html>''\<rparr>),
      BeautifulSoup = (\<lambda>m. Inr page_example),
      webdriver_Chrome = (\<lambda>opts. Inr ()),
      driver_get = (\<lambda>u. Inr ()),
      driver_page_source = Inr ''<html>'',
      driver_quit = Inr (),
      messages_create = (\<lambda>r. Inr (Message [TextBlock ''# Summary''])),
      recursion_limit = 990\<rparr>"

text \<open>The server answers 404 with a page.\<close>

definition world_not_found :: env where
  "world_not_found =
     world_online\<lparr>requests_get := (\<lambda>u. Inr \<lparr>status_code = 404, content = ''<html>''\<rparr>)\<rparr>"

text \<open>The HTTP request fails; the browser succeeds.\<close>

definition world_static_down :: env where
  "world_static_down =
     world_online\<lparr>requests_get := (\<lambda>u. Inl (Exception ''ConnectionError'' ''connection refused''))\<rparr>"

text \<open>The HTTP request fails and the browser cannot load the page.\<close>

definition world_offline :: env where
  "world_offline =
     world_static_down\<lparr>driver_get :=
       (\<lambda>u. Inl (Exception ''WebDriverException'' ''net::ERR_INTERNET_DISCONNECTED''))\<rparr>"

text \<open>The HTTP request fails and no browser can be started.\<close>

definition world_no_browser :: env where
  "world_no_browser =
     world_static_down\<lparr>webdriver_Chrome :=
       (\<lambda>opts. Inl (Exception ''WebDriverException'' ''chrome not found''))\<rparr>"

text \<open>
  The server answers 200 and the body parses, to a page whose title holds 1001 elements
  nested one in the other; the page the browser renders parses to \<open>page_example\<close>.
\<close>

definition world_deep :: env where
  "world_deep =
     world_online\<lparr>BeautifulSoup :=
       (\<lambda>m. case m of Bytes b \<Rightarrow> Inr (page_deep 1000) | Str s \<Rightarrow> Inr page_example)\<rparr>"

text \<open>A world in which every HTTP response carries the status code \<open>c\<close> instead of its own.\<close>

definition with_status_code :: "nat \<Rightarrow> env \<Rightarrow> env" where
  "with_status_code c env =
     env\<lparr>requests_get :=
       (\<lambda>u. case requests_get env u of
               Inl e \<Rightarrow> Inl e
             | Inr response \<Rightarrow> Inr (response\<lparr>status_code := c\<rparr>))\<rparr>"

text \<open>The text-generation service answers with an empty content list.\<close>

definition world_empty_answer :: env where
  "world_empty_answer = world_online\<lparr>messages_create := (\<lambda>r. Inr (Message []))\<rparr>"

text \<open>The events that only print.\<close>

fun is_Print :: "event \<Rightarrow> bool" where
  "is_Print (Print s) = True"
| "is_Print _ = False"

section \<open>URL normalisation\<close>

lemma startswith_append_self: "startswith (p @ s) p"
  by (simp add: startswith_def)

lemma normalize_url_recognised:
  "startswith_any (normalize_url u) [''http://'', ''https://'']"
proof (cases "startswith_any u [''http://'', ''https://'']")
  case True
  then show ?thesis by (simp add: normalize_url_def)
next
  case False
  have "startswith (''https://'' @ u) ''https://''"
    by (rule startswith_append_self)
  with False show ?thesis
    by (simp add: normalize_url_def startswith_any_def)
qed

text \<open>
  Claim C3. When the input does not start with \<open>http://\<close> or \<open>https://\<close>, the normalised
  URL is \<open>https://\<close> followed by the input, and the input itself is what follows that
  single prefix; when the input starts with one of the two, it is returned unchanged.
  Normalising a second time changes nothing, so the prefix is never added twice.
\<close>

theorem normalize_url_once:
  "(\<not> startswith_any u [''http://'', ''https://''] \<longrightarrow>
       normalize_url u = ''https://'' @ u \<and> drop (length ''https://'') (normalize_url u) = u)
   \<and> (startswith_any u [''http://'', ''https://''] \<longrightarrow> normalize_url u = u)
   \<and> normalize_url (normalize_url u) = normalize_url u"
proof -
  have idem: "normalize_url (normalize_url u) = normalize_url u"
    using normalize_url_recognised [of u]
    by (simp add: normalize_url_def [of "normalize_url u"])
  show ?thesis
    using idem by (simp add: normalize_url_def)
qed

theorem normalize_url_once_witness:
  "\<not> startswith_any ''cnn.com'' [''http://'', ''https://'']
   \<and> normalize_url ''cnn.com'' = ''https://cnn.com''
   \<and> startswith_any ''https://www.bbc.com'' [''http://'', ''https://'']
   \<and> normalize_url ''https://www.bbc.com'' = ''https://www.bbc.com''"
proof -
  have h1: "\<not> startswith_any ''cnn.com'' [''http://'', ''https://'']"
    by (simp add: startswith_any_def startswith_def)
  have h2: "startswith_any ''https://www.bbc.com'' [''http://'', ''https://'']"
    by (simp add: startswith_any_def startswith_def)
  from h1 normalize_url_once [of "''cnn.com''"]
  have "normalize_url ''cnn.com'' = ''https://cnn.com''" by simp
  moreover from h2 normalize_url_once [of "''https://www.bbc.com''"]
  have "normalize_url ''https://www.bbc.com'' = ''https://www.bbc.com''" by simp
  ultimately show ?thesis using h1 h2 by simp
qed

section \<open>The removal loop\<close>

lemma ids_simps [simp]:
  "ids [] = []"
  "ids (Tag i n cs # rest) = i # ids cs @ ids rest"
  "ids (Text i k s # rest) = i # ids rest"
  by (simp_all add: ids_def)

lemma prune_ids_absent: "S \<inter> set (ids f) = {} \<Longrightarrow> prune_ids S f = f"
  by (induction S f rule: prune_ids.induct) auto

lemma set_ids_prune_ids: "set (ids (prune_ids S f)) \<subseteq> set (ids f)"
  by (induction S f rule: prune_ids.induct) auto

lemma distinct_ids_prune_ids: "distinct (ids f) \<Longrightarrow> distinct (ids (prune_ids S f))"
proof (induction S f rule: prune_ids.induct)
  case (1 S)
  then show ?case by simp
next
  case (2 S i n cs rest)
  then show ?case
    using set_ids_prune_ids [of S cs] set_ids_prune_ids [of S rest]
    by (auto simp: disjoint_iff)
next
  case (3 S i k s rest)
  then show ?case
    using set_ids_prune_ids [of S rest] by auto
qed

text \<open>Taking one object out is pruning by its identity, identities being distinct.\<close>

lemma extract_element_prune_ids:
  "distinct (ids f) \<Longrightarrow> extract_element x f = prune_ids {x} f"
proof (induction x f rule: extract_element.induct)
  case (1 x)
  then show ?case by simp
next
  case (2 x i n cs rest)
  then show ?case by (auto simp: prune_ids_absent)
next
  case (3 x i k s rest)
  then show ?case by (auto simp: prune_ids_absent)
qed

lemma prune_ids_prune_ids: "prune_ids S (prune_ids T f) = prune_ids (S \<union> T) f"
  by (induction T f rule: prune_ids.induct) auto

lemma fold_decompose:
  "distinct (ids f) \<Longrightarrow> fold decompose es f = prune_ids (ident ` set es) f"
proof (induction es arbitrary: f)
  case Nil
  then show ?case by (simp add: prune_ids_absent)
next
  case (Cons e es)
  have step: "decompose e f = prune_ids {ident e} f"
    using Cons.prems by (simp add: decompose_def extract_element_prune_ids)
  have "distinct (ids (decompose e f))"
    using Cons.prems by (simp add: step distinct_ids_prune_ids)
  then have "fold decompose es (decompose e f) = prune_ids (ident ` set es) (decompose e f)"
    by (rule Cons.IH)
  then show ?case
    by (simp add: step prune_ids_prune_ids Un_commute)
qed

lemma prune_ids_prune:
  "\<forall>e \<in> set (descendants f). ident e \<in> S \<longleftrightarrow> name_in irrelevant_names e
   \<Longrightarrow> prune_ids S f = prune f"
  by (induction S f rule: prune_ids.induct) auto

lemma found_ids:
  assumes "distinct (ids f)" and "e \<in> set (descendants f)"
  shows "ident e \<in> ident ` set (find_all names f) \<longleftrightarrow> name_in names e"
proof
  assume "ident e \<in> ident ` set (find_all names f)"
  then obtain e' where e': "e' \<in> set (descendants f)" "name_in names e'" "ident e' = ident e"
    by (auto simp: find_all_def)
  have "inj_on ident (set (descendants f))"
    using assms(1) by (simp add: ids_def distinct_map)
  with e' assms(2) have "e' = e" by (auto dest: inj_onD)
  with e' show "name_in names e" by simp
next
  assume "name_in names e"
  with assms(2) show "ident e \<in> ident ` set (find_all names f)"
    by (auto simp: find_all_def)
qed

text \<open>The loop of lines 114-115 leaves the tree without the elements of the six kinds.\<close>

lemma decompose_loop:
  "wellformed sp \<Longrightarrow> fold decompose (find_all irrelevant_names sp) sp = prune sp"
  by (simp add: wellformed_def ids_def [symmetric] fold_decompose prune_ids_prune found_ids)

section \<open>The title\<close>

lemma soup_find_tag: "soup_find nm sp = Some t \<Longrightarrow> \<exists>i cs. t = Tag i nm cs"
proof -
  assume "soup_find nm sp = Some t"
  then have "t \<in> set (find_all [nm] sp)"
    by (auto simp: soup_find_def split: list.splits)
  then have "name_in [nm] t" by (simp add: find_all_def)
  then show ?thesis by (cases t) simp_all
qed

lemma tag_string_fits:
  "chain_length (Tag i n cs) \<le> d \<Longrightarrow>
   tag_string d (Tag i n cs) = Inr (own_string (chain_end (Tag i n cs)))"
  by (induction d "Tag i n cs" arbitrary: i n cs rule: tag_string.induct) simp_all

lemma tag_string_deep:
  "d < chain_length (Tag i n cs) \<Longrightarrow> tag_string d (Tag i n cs) = Inl RecursionError"
  by (induction d "Tag i n cs" arbitrary: i n cs rule: tag_string.induct) simp_all

lemma chain_end_tag: "\<exists>j m ds. chain_end (Tag i n cs) = Tag j m ds"
  by (induction "Tag i n cs" arbitrary: i n cs rule: chain_end.induct) simp_all

lemma own_string_none:
  "length ds \<noteq> 1 \<Longrightarrow> own_string (Tag j m ds) = None"
  by (cases "(Tag j m ds)" rule: own_string.cases) simp_all

lemma nested_tag: "\<exists>cs. nested n = Tag n ''b'' cs"
  by (cases n) simp_all

lemma chain_length_nested: "chain_length (Tag i m [nested n]) = Suc n"
proof (induction n arbitrary: i m)
  case 0
  then show ?case by simp
next
  case (Suc n)
  then show ?case by simp
qed

section \<open>The extracted text\<close>

lemma all_strings_simps [simp]:
  "all_strings [] = []"
  "all_strings (Tag i n cs # rest) = all_strings cs @ all_strings rest"
  "all_strings (Text i k s # rest) = stripped (Text i k s) @ all_strings rest"
  by (simp_all add: all_strings_def)

lemma all_strings_prune: "all_strings (prune f) = visible_of plain_string f"
  by (induction f rule: prune.induct) (simp_all add: plain_string_def)

text \<open>
  The visible text keeps the document order: it is a subsequence of the trimmed strings
  of the forest as parsed.
\<close>

lemma visible_of_subseq: "subseq (visible_of plain_string f) (all_strings f)"
proof (induction f rule: prune.induct)
  case 1
  then show ?case by simp
next
  case (2 i n cs rest)
  then show ?case by (auto intro: list_emb_append_mono list_emb_append2)
next
  case (3 i k s rest)
  then show ?case by (auto simp: plain_string_def intro: list_emb_append_mono)
qed

lemma find_all_simps [simp]:
  "find_all names [] = []"
  "find_all names (Tag i n cs # rest) =
     (if n \<in> set names then [Tag i n cs] else []) @ find_all names cs @ find_all names rest"
  "find_all names (Text i k s # rest) = find_all names rest"
  by (simp_all add: find_all_def)

lemma body_relevant: "''body'' \<notin> set irrelevant_names"
  by (simp add: irrelevant_names_def)

lemma find_body_prune:
  "(case document_body f of
      None \<Rightarrow> find_all [''body''] (prune f) = []
    | Some b \<Rightarrow> (\<exists>i r. find_all [''body''] (prune f) = Tag i ''body'' (prune b) # r))"
proof (induction f rule: document_body.induct)
  case 1
  then show ?case by simp
next
  case (2 i n cs rest)
  show ?case
  proof (cases "n \<in> set irrelevant_names")
    case True
    with 2 show ?thesis by (simp split: option.splits)
  next
    case False
    note relevant = this
    show ?thesis
    proof (cases "n = ''body''")
      case True
      with relevant show ?thesis by (simp split: option.splits)
    next
      case False
      with relevant 2 show ?thesis
        by (cases "document_body cs") (auto split: option.splits)
    qed
  qed
next
  case (3 i k s rest)
  then show ?case by (simp split: option.splits)
qed

text \<open>The text that lines 114-118 compute from a tree.\<close>

lemma body_text_plain:
  "wellformed sp \<Longrightarrow>
   (case soup_find ''body'' (fold decompose (find_all irrelevant_names sp) sp) of
      Some b \<Rightarrow> get_text [newline] b
    | None \<Rightarrow> []) = plain_text sp"
  using find_body_prune [of sp]
  by (auto simp: decompose_loop soup_find_def plain_text_def get_text_def
      all_strings_prune split: option.splits)

lemma no_body_at_all: "soup_find ''body'' sp = None \<Longrightarrow> document_body sp = None"
  by (induction sp rule: document_body.induct)
    (auto simp: soup_find_def split: list.splits option.splits if_splits)

text \<open>What \<open>_process_content\<close> returns, by the outcome of the title lookup.\<close>

lemma process_content_without_title:
  "wellformed sp \<Longrightarrow> soup_find ''title'' sp = None \<Longrightarrow>
   process_content d u sp =
     Inr \<lparr>url = u, title = Some ''No title found'', text = plain_text sp\<rparr>"
  by (simp add: process_content_def Let_def body_text_plain)

lemma process_content_with_title:
  "wellformed sp \<Longrightarrow> soup_find ''title'' sp = Some t \<Longrightarrow> tag_string d t = Inr s \<Longrightarrow>
   process_content d u sp = Inr \<lparr>url = u, title = s, text = plain_text sp\<rparr>"
  by (simp add: process_content_def Let_def body_text_plain)

lemma process_content_raises:
  "soup_find ''title'' sp = Some t \<Longrightarrow> tag_string d t = Inl e \<Longrightarrow>
   process_content d u sp = Inl e"
  by (simp add: process_content_def)

lemma process_content_url: "process_content d u sp = Inr w \<Longrightarrow> url w = u"
  by (auto simp: process_content_def Let_def split: sum.splits option.splits)

lemma process_content_fits:
  assumes "wellformed sp" and "title_fits d sp"
  shows "\<exists>w. process_content d u sp = Inr w \<and> text w = plain_text sp"
proof (cases "soup_find ''title'' sp")
  case None
  with assms show ?thesis by (simp add: process_content_without_title)
next
  case (Some t)
  then obtain i cs where t: "t = Tag i ''title'' cs"
    using soup_find_tag by blast
  from assms(2) Some have "chain_length t \<le> d" by (simp add: title_fits_def)
  with t have "tag_string d t = Inr (own_string (chain_end t))"
    by (simp add: tag_string_fits)
  from process_content_with_title [OF assms(1) Some this] show ?thesis by simp
qed

lemma process_content_overflow:
  assumes "\<not> title_fits d sp"
  shows "process_content d u sp = Inl RecursionError"
proof -
  from assms obtain t where Some: "soup_find ''title'' sp = Some t" and deep: "d < chain_length t"
    by (auto simp: title_fits_def split: option.splits)
  then obtain i cs where t: "t = Tag i ''title'' cs"
    using soup_find_tag by blast
  with deep have "tag_string d t = Inl RecursionError"
    by (simp add: tag_string_deep)
  from process_content_raises [OF Some this] show ?thesis .
qed

section \<open>The example pages\<close>

lemma ids_nested: "set (ids [nested n]) = {..n} \<and> distinct (ids [nested n])"
proof (induction n)
  case 0
  then show ?case by simp
next
  case (Suc n)
  then show ?case by (auto simp: atMost_Suc)
qed

lemma wellformed_page_deep: "wellformed (page_deep n)"
  using ids_nested [of n]
  by (simp add: wellformed_def ids_def [symmetric] page_deep_def)

lemma title_page_deep: "soup_find ''title'' (page_deep n) = Some (Tag (Suc n) ''title'' [nested n])"
proof -
  obtain cs where "nested n = Tag n ''b'' cs" using nested_tag by blast
  moreover have "find_all [''title''] [nested n] = []"
    by (induction n) simp_all
  ultimately show ?thesis
    by (simp add: soup_find_def page_deep_def)
qed

lemma page_deep_overflow: "d \<le> n \<Longrightarrow> process_content d u (page_deep n) = Inl RecursionError"
  by (rule process_content_overflow)
    (simp add: title_fits_def title_page_deep chain_length_nested)

lemma wellformed_page_example: "wellformed page_example"
  by (simp add: wellformed_def page_example_def)

lemma title_page_example:
  "soup_find ''title'' page_example = Some (Tag 3 ''title'' [Text 4 NavigableString ''Example''])"
  by (simp add: soup_find_def page_example_def)

lemma plain_text_page_example: "plain_text page_example = ''Hello'' @ [newline] @ ''World''"
  by (simp add: plain_text_def page_example_def irrelevant_names_def strip_def isspace_def
      newline_def plain_string_def)

lemma process_page_example:
  "process_content d ''https://example.com'' page_example = Inr website_example"
  using process_content_with_title [OF wellformed_page_example title_page_example,
      of d "Some ''Example''" "''https://example.com''"]
  by (simp add: plain_text_page_example website_example_def)

lemma wellformed_page_ruby: "wellformed page_ruby"
  by (simp add: wellformed_def page_ruby_def)

lemma process_page_ruby:
  "process_content d u page_ruby =
     Inr \<lparr>url = u, title = Some ''No title found'', text = ''k'' @ [newline] @ ''x''\<rparr>"
proof -
  have "soup_find ''title'' page_ruby = None"
    by (simp add: soup_find_def page_ruby_def)
  from process_content_without_title [OF wellformed_page_ruby this, of d u] show ?thesis
    by (simp add: plain_text_def page_ruby_def irrelevant_names_def strip_def isspace_def
        plain_string_def)
qed

text \<open>
  Claim C2 fails as stated, on two pages. On the page with the ruby annotation the text
  node \<open>r\<close> of the \<open>rt\<close> element is under the body and in none of the six excluded
  kinds of element, so the text of the specification has it; \<open>_process_content\<close> leaves
  it out, because \<open>get_text\<close> reads only strings of class \<open>NavigableString\<close> or
  \<open>CData\<close>. On the page whose title holds 1001 nested elements, \<open>soup.title.string\<close>
  raises \<open>RecursionError\<close> at line 111 and no text is set at all.
\<close>

theorem process_content_text_counterexample:
  "process_content 990 ''https://example.com'' page_ruby =
     Inr \<lparr>url = ''https://example.com'', title = Some ''No title found'',
          text = ''k'' @ [newline] @ ''x''\<rparr>
   \<and> spec_text page_ruby = ''k'' @ [newline] @ ''r'' @ [newline] @ ''x''
   \<and> process_content 990 ''https://example.com'' (page_deep 1000) = Inl RecursionError"
proof -
  have "spec_text page_ruby = ''k'' @ [newline] @ ''r'' @ [newline] @ ''x''"
    by (simp add: spec_text_def page_ruby_def irrelevant_names_def strip_def isspace_def
        text_node_def)
  then show ?thesis
    by (simp add: process_page_ruby page_deep_overflow)
qed

text \<open>
  Claim C2, amended. For every parse tree (whose objects are pairwise different, as
  Python objects are) for which the title lookup fits under the recursion limit,
  \<open>_process_content\<close> returns and sets \<open>text\<close> to: the strings of class
  \<open>NavigableString\<close> or \<open>CData\<close> under the document body, in document order, each one
  trimmed, those left out of which nothing remains, joined by newlines, where nothing
  inside a script, style, img, input, iframe or noscript element is read and the body is
  looked up with these elements gone. The text is empty when the document has no body
  element. When the title lookup does not fit, \<open>_process_content\<close> raises
  \<open>RecursionError\<close> and sets no text.
\<close>

theorem process_content_plain_text:
  "wellformed sp \<Longrightarrow>
     (title_fits d sp \<longrightarrow>
        (\<exists>w. process_content d u sp = Inr w
              \<and> text w = plain_text sp
              \<and> (soup_find ''body'' sp = None \<longrightarrow> text w = [])))
     \<and> (\<not> title_fits d sp \<longrightarrow> process_content d u sp = Inl RecursionError)"
proof -
  assume wf: "wellformed sp"
  have "plain_text sp = []" if "soup_find ''body'' sp = None"
    using no_body_at_all [OF that] by (simp add: plain_text_def)
  with process_content_fits [OF wf, of d u] process_content_overflow [of d sp u]
  show ?thesis by auto
qed

theorem process_content_plain_text_witness:
  "wellformed page_example
   \<and> title_fits 990 page_example
   \<and> process_content 990 ''https://example.com'' page_example =
        Inr \<lparr>url = ''https://example.com'', title = Some ''Example'',
             text = ''Hello'' @ [newline] @ ''World''\<rparr>
   \<and> wellformed page_without_body
   \<and> title_fits 990 page_without_body
   \<and> soup_find ''body'' page_without_body = None
   \<and> (\<exists>w. process_content 990 ''https://example.com'' page_without_body = Inr w \<and> text w = [])
   \<and> wellformed (page_deep 1000)
   \<and> \<not> title_fits 990 (page_deep 1000)
   \<and> process_content 990 ''https://example.com'' (page_deep 1000) = Inl RecursionError"
proof -
  have w2: "wellformed page_without_body"
    by (simp add: wellformed_def page_without_body_def)
  have f1: "title_fits 990 page_example"
    by (simp add: title_fits_def title_page_example)
  have f2: "title_fits 990 page_without_body"
    by (simp add: title_fits_def soup_find_def page_without_body_def)
  have f3: "\<not> title_fits 990 (page_deep 1000)"
    by (simp add: title_fits_def title_page_deep chain_length_nested)
  have nb: "soup_find ''body'' page_without_body = None"
    by (simp add: soup_find_def page_without_body_def)
  from process_content_plain_text [OF wellformed_page_example, of 990 "''https://example.com''"] f1
  obtain w where w: "process_content 990 ''https://example.com'' page_example = Inr w"
    "text w = plain_text page_example"
    by blast
  have a: "process_content 990 ''https://example.com'' page_example =
        Inr \<lparr>url = ''https://example.com'', title = Some ''Example'',
             text = ''Hello'' @ [newline] @ ''World''\<rparr>"
    using w process_page_example [of 990] by (simp add: website_example_def)
  from process_content_plain_text [OF w2, of 990 "''https://example.com''"] f2 nb
  have b: "\<exists>w. process_content 990 ''https://example.com'' page_without_body = Inr w \<and> text w = []"
    by blast
  from process_content_plain_text [OF wellformed_page_deep, of 990 1000 "''https://example.com''"] f3
  have c: "process_content 990 ''https://example.com'' (page_deep 1000) = Inl RecursionError"
    by blast
  from a b c w2 f1 f2 f3 nb wellformed_page_example wellformed_page_deep [of 1000]
  show ?thesis by blast
qed

section \<open>The title and the prompt\<close>

lemma instruction_literal:
  "instruction =
     ''The contents of this website is as follows; please provide a short summary of this website in markdown. If it includes news or announcements, then summarize these too.''"
  by (simp add: instruction_def)

text \<open>
  Claim C4. For a website with title \<open>t\<close> and text \<open>x\<close>, the prompt is exactly: the
  opening sentence with the title \<open>t\<close> in it, the instruction of lines 132-134, two
  newlines, and the text \<open>x\<close> unchanged to its end. The instruction has no newline in
  it, so the two newlines make exactly one blank line.
\<close>

theorem user_prompt_for_exact:
  "user_prompt_for \<lparr>url = u, title = Some t, text = x\<rparr> =
     ''You are looking at a website titled '' @ t @ ''. ''
     @ ''The contents of this website is as follows; please provide a short summary of this website in markdown. If it includes news or announcements, then summarize these too.''
     @ [newline, newline] @ x
   \<and> newline \<notin> set ''The contents of this website is as follows; please provide a short summary of this website in markdown. If it includes news or announcements, then summarize these too.''"
  by (simp add: user_prompt_for_def Let_def instruction_def newline_def)

theorem user_prompt_for_exact_witness:
  "user_prompt_for
     \<lparr>url = ''https://example.com'', title = Some ''Example'',
      text = ''Hello'' @ [newline] @ ''World''\<rparr> =
     ''You are looking at a website titled Example. The contents of this website is as follows; please provide a short summary of this website in markdown. If it includes news or announcements, then summarize these too.''
     @ [newline, newline] @ ''Hello'' @ [newline] @ ''World''"
  using user_prompt_for_exact [of "''https://example.com''" "''Example''"
      "''Hello'' @ [newline] @ ''World''"]
  by simp

lemma user_prompt_for_none:
  "title w = None \<Longrightarrow>
   user_prompt_for w =
     ''You are looking at a website titled None. The contents of this website is as follows; please provide a short summary of this website in markdown. If it includes news or announcements, then summarize these too.''
     @ [newline, newline] @ text w"
  by (simp add: user_prompt_for_def Let_def instruction_def)

text \<open>
  Claim C8. When the document has no title element, the title is the sentinel
  \<open>No title found\<close>; when the title element of the document is a title tag holding the
  one string \<open>s\<close> (as \<open><title>Example</title>\<close> holds \<open>Example\<close>), the title is \<open>s\<close>.
\<close>

theorem process_content_title:
  "(soup_find ''title'' sp = None \<longrightarrow>
      (\<exists>w. process_content d u sp = Inr w \<and> title w = Some ''No title found''))
   \<and> (soup_find ''title'' sp = Some (Tag i ''title'' [Text j k s]) \<longrightarrow>
        (\<exists>w. process_content d u sp = Inr w \<and> title w = Some s))"
  by (simp add: process_content_def Let_def)

theorem process_content_title_witness:
  "soup_find ''title'' page_without_body = None
   \<and> (\<exists>w. process_content 990 ''https://example.com'' page_without_body = Inr w
            \<and> title w = Some ''No title found'')
   \<and> soup_find ''title'' page_example = Some (Tag 3 ''title'' [Text 4 NavigableString ''Example''])
   \<and> (\<exists>w. process_content 990 ''https://example.com'' page_example = Inr w
            \<and> title w = Some ''Example'')"
proof -
  have h1: "soup_find ''title'' page_without_body = None"
    by (simp add: soup_find_def page_without_body_def)
  note h2 = title_page_example
  from h1 process_content_title [of page_without_body 990 "''https://example.com''"]
  have a: "\<exists>w. process_content 990 ''https://example.com'' page_without_body = Inr w
            \<and> title w = Some ''No title found''"
    by blast
  from h2 process_content_title [of page_example 990 "''https://example.com''" 3 4 NavigableString "''Example''"]
  have b: "\<exists>w. process_content 990 ''https://example.com'' page_example = Inr w
            \<and> title w = Some ''Example''"
    by blast
  from a b h1 h2 show ?thesis by blast
qed

lemma process_content_sets_title:
  "soup_find ''title'' sp = Some t \<Longrightarrow> tag_string d t = Inr s \<Longrightarrow>
   \<exists>w. process_content d u sp = Inr w \<and> title w = s"
  by (simp add: process_content_def Let_def)

text \<open>
  Claim C10 fails as stated, on two titles that hold only child elements. The title of
  \<open><title><b>x</b></title>\<close> holds one child element and no string of its own, and
  \<open>_process_content\<close> sets the title to \<open>x\<close>, not to \<open>None\<close>: \<open>.string\<close> descends into an
  only child. On the title that holds 1001 nested elements \<open>.string\<close> raises
  \<open>RecursionError\<close> and no title is set.
\<close>

theorem title_of_only_child_counterexample:
  "process_content 990 ''u'' page_title_child = Inr \<lparr>url = ''u'', title = Some ''x'', text = []\<rparr>
   \<and> process_content 990 ''u'' (page_deep 1000) = Inl RecursionError"
proof -
  let ?t = "Tag 1 ''title'' [Tag 2 ''b'' [Text 3 NavigableString ''x'']]"
  have wf: "wellformed page_title_child"
    by (simp add: wellformed_def page_title_child_def)
  have found: "soup_find ''title'' page_title_child = Some ?t"
    by (simp add: soup_find_def page_title_child_def)
  have str: "tag_string 990 ?t = Inr (Some ''x'')"
    by (simp add: tag_string_fits)
  have "plain_text page_title_child = []"
    by (simp add: plain_text_def page_title_child_def irrelevant_names_def)
  with process_content_with_title [OF wf found str, of "''u''"]
  show ?thesis by (simp add: page_deep_overflow)
qed

text \<open>
  Claim C10, amended. Let the document have a title element, and follow the chain of
  only children that are elements down to its last tag. When the chain fits under the
  recursion limit, \<open>_process_content\<close> returns, and the sentinel plays no part: if that
  last tag has no child or more than one child (an empty title, or one with several
  child elements), the title is \<open>None\<close>, not the sentinel, and the prompt reads
  \<open>titled None.\<close> where the title would stand; if its only child is a string, the title
  is that string. When the chain does not fit, \<open>_process_content\<close> raises
  \<open>RecursionError\<close>.
\<close>

theorem title_follows_only_child_chain:
  "soup_find ''title'' sp = Some t \<Longrightarrow>
     (chain_length t \<le> d \<longrightarrow>
        (\<exists>w. process_content d u sp = Inr w
              \<and> title w = own_string (chain_end t)
              \<and> (length (contents (chain_end t)) \<noteq> 1 \<longrightarrow>
                    title w = None
                    \<and> title w \<noteq> Some ''No title found''
                    \<and> user_prompt_for w =
                        ''You are looking at a website titled None. The contents of this website is as follows; please provide a short summary of this website in markdown. If it includes news or announcements, then summarize these too.''
                        @ [newline, newline] @ text w)
              \<and> (\<forall>j k s. contents (chain_end t) = [Text j k s] \<longrightarrow> title w = Some s)))
     \<and> (d < chain_length t \<longrightarrow> process_content d u sp = Inl RecursionError)"
proof -
  assume found: "soup_find ''title'' sp = Some t"
  then obtain i cs where t: "t = Tag i ''title'' cs"
    using soup_find_tag by blast
  obtain j m ds where e: "chain_end t = Tag j m ds"
    using chain_end_tag t by blast
  have fits: "\<exists>w. process_content d u sp = Inr w
              \<and> title w = own_string (chain_end t)
              \<and> (length (contents (chain_end t)) \<noteq> 1 \<longrightarrow>
                    title w = None
                    \<and> title w \<noteq> Some ''No title found''
                    \<and> user_prompt_for w =
                        ''You are looking at a website titled None. The contents of this website is as follows; please provide a short summary of this website in markdown. If it includes news or announcements, then summarize these too.''
                        @ [newline, newline] @ text w)
              \<and> (\<forall>j k s. contents (chain_end t) = [Text j k s] \<longrightarrow> title w = Some s)"
    if "chain_length t \<le> d"
  proof -
    from that t have "tag_string d t = Inr (own_string (chain_end t))"
      by (simp add: tag_string_fits)
    from process_content_sets_title [OF found this, of u]
    obtain w where w: "process_content d u sp = Inr w" "title w = own_string (chain_end t)"
      by blast
    have none: "title w = None" if "length (contents (chain_end t)) \<noteq> 1"
      using that w(2) e by (simp add: own_string_none)
    have some: "title w = Some s" if "contents (chain_end t) = [Text j' k s]" for j' k s
      using that w(2) e by simp
    from w none some user_prompt_for_none [of w] show ?thesis by auto
  qed
  have deep: "process_content d u sp = Inl RecursionError" if "d < chain_length t"
  proof -
    from that t have "tag_string d t = Inl RecursionError" by (simp add: tag_string_deep)
    from process_content_raises [OF found this] show ?thesis .
  qed
  from fits deep show ?thesis by blast
qed

theorem title_follows_only_child_chain_witness:
  "soup_find ''title'' [Tag 1 ''title'' []] = Some (Tag 1 ''title'' [])
   \<and> chain_length (Tag 1 ''title'' []) \<le> 990
   \<and> length (contents (chain_end (Tag 1 ''title'' []))) \<noteq> 1
   \<and> (\<exists>w. process_content 990 ''u'' [Tag 1 ''title'' []] = Inr w \<and> title w = None)
   \<and> soup_find ''title'' [Tag 1 ''title'' [Tag 2 ''b'' [], Tag 3 ''i'' []]]
        = Some (Tag 1 ''title'' [Tag 2 ''b'' [], Tag 3 ''i'' []])
   \<and> (\<exists>w. process_content 990 ''u'' [Tag 1 ''title'' [Tag 2 ''b'' [], Tag 3 ''i'' []]] = Inr w
            \<and> title w = None)
   \<and> soup_find ''title'' page_title_child = Some (Tag 1 ''title'' [Tag 2 ''b'' [Text 3 NavigableString ''x'']])
   \<and> contents (chain_end (Tag 1 ''title'' [Tag 2 ''b'' [Text 3 NavigableString ''x'']]))
        = [Text 3 NavigableString ''x'']
   \<and> (\<exists>w. process_content 990 ''u'' page_title_child = Inr w \<and> title w = Some ''x'')
   \<and> soup_find ''title'' (page_deep 1000) = Some (Tag 1001 ''title'' [nested 1000])
   \<and> 990 < chain_length (Tag 1001 ''title'' [nested 1000])
   \<and> process_content 990 ''u'' (page_deep 1000) = Inl RecursionError"
proof -
  let ?t1 = "Tag 1 ''title'' []"
  let ?t2 = "Tag 1 ''title'' [Tag 2 ''b'' [], Tag 3 ''i'' []]"
  let ?t3 = "Tag 1 ''title'' [Tag 2 ''b'' [Text 3 NavigableString ''x'']]"
  let ?t4 = "Tag 1001 ''title'' [nested 1000]"
  have f1: "soup_find ''title'' [?t1] = Some ?t1"
    and f2: "soup_find ''title'' [?t2] = Some ?t2"
    and f3: "soup_find ''title'' page_title_child = Some ?t3"
    by (simp_all add: soup_find_def page_title_child_def)
  have f4: "soup_find ''title'' (page_deep 1000) = Some ?t4"
    using title_page_deep [of 1000] by simp
  have c4: "990 < chain_length ?t4"
    by (simp add: chain_length_nested)
  from title_follows_only_child_chain [OF f1, of 990 "''u''"]
  have a: "\<exists>w. process_content 990 ''u'' [?t1] = Inr w \<and> title w = None"
    by auto
  from title_follows_only_child_chain [OF f2, of 990 "''u''"]
  have b: "\<exists>w. process_content 990 ''u'' [?t2] = Inr w \<and> title w = None"
    by auto
  from title_follows_only_child_chain [OF f3, of 990 "''u''"]
  have c: "\<exists>w. process_content 990 ''u'' page_title_child = Inr w \<and> title w = Some ''x''"
    by auto
  from title_follows_only_child_chain [OF f4, of 990 "''u''"] c4
  have d: "process_content 990 ''u'' (page_deep 1000) = Inl RecursionError"
    by blast
  from a b c d f1 f2 f3 f4 c4 show ?thesis by simp
qed

section \<open>Retrieval\<close>

lemma fetch_static_trace: "snd (fetch_static env x) = [HttpGet x]"
  by (simp add: fetch_static_def split: sum.splits)

lemma fetch_static_url: "fst (fetch_static env x) = Inr w \<Longrightarrow> url w = x"
  by (auto simp: fetch_static_def process_content_url split: sum.splits)

lemma fetch_dynamic_url: "fst (fetch_dynamic env x) = Inr w \<Longrightarrow> url w = x"
  by (auto simp: fetch_dynamic_def fetch_dynamic_try_def process_content_url
      split: sum.splits prod.splits)

lemma fetch_dynamic_try_trace:
  "ChromeLaunch opts \<notin> set (snd (fetch_dynamic_try env x))
   \<and> DriverQuit \<notin> set (snd (fetch_dynamic_try env x))
   \<and> HttpGet y \<notin> set (snd (fetch_dynamic_try env x))"
  by (simp add: fetch_dynamic_try_def split: sum.splits)

lemma fetch_dynamic_launched:
  "webdriver_Chrome env chrome_options = Inr v \<Longrightarrow>
   snd (fetch_dynamic env x) =
     ChromeLaunch chrome_options # snd (fetch_dynamic_try env x) @ [DriverQuit]"
  by (simp add: fetch_dynamic_def split: sum.splits prod.splits)

lemma fetch_dynamic_not_launched:
  "webdriver_Chrome env chrome_options = Inl e \<Longrightarrow>
   fetch_dynamic env x = (Inl e, [ChromeLaunch chrome_options])"
  by (simp add: fetch_dynamic_def)

lemma count_list_absent: "a \<notin> set xs \<Longrightarrow> count_list xs a = 0"
  by (induction xs) auto

lemma fetch_dynamic_one_launch:
  "count_list (snd (fetch_dynamic env x)) (ChromeLaunch chrome_options) = 1"
proof (cases "webdriver_Chrome env chrome_options")
  case (Inl e)
  then show ?thesis by (simp add: fetch_dynamic_not_launched)
next
  case (Inr v)
  then show ?thesis
    using fetch_dynamic_try_trace [of chrome_options env x]
    by (simp add: fetch_dynamic_launched count_list_absent)
qed

lemma fetch_dynamic_quit:
  "webdriver_Chrome env chrome_options = Inr v \<Longrightarrow>
   last (snd (fetch_dynamic env x)) = DriverQuit
   \<and> count_list (snd (fetch_dynamic env x)) DriverQuit = 1"
  using fetch_dynamic_try_trace [of chrome_options env x]
  by (simp add: fetch_dynamic_launched count_list_absent)

lemma fetch_dynamic_no_get: "HttpGet y \<notin> set (snd (fetch_dynamic env x))"
proof (cases "webdriver_Chrome env chrome_options")
  case (Inl e)
  then show ?thesis by (simp add: fetch_dynamic_not_launched)
next
  case (Inr v)
  then show ?thesis
    using fetch_dynamic_try_trace [of chrome_options env x y]
    by (simp add: fetch_dynamic_launched)
qed

lemma Website_init_static_ok:
  "fst (fetch_static env (normalize_url u)) = Inr w \<Longrightarrow>
   Website_init env u = (Inr w, [HttpGet (normalize_url u)])"
  using fetch_static_trace [of env "normalize_url u"]
  by (cases "fetch_static env (normalize_url u)") (simp add: Website_init_def Let_def)

lemma Website_init_static_fails:
  "fst (fetch_static env (normalize_url u)) = Inl e \<Longrightarrow>
   Website_init env u =
     (fst (fetch_dynamic env (normalize_url u)),
      HttpGet (normalize_url u) # snd (fetch_dynamic env (normalize_url u)))"
  using fetch_static_trace [of env "normalize_url u"]
  by (cases "fetch_static env (normalize_url u)")
    (simp add: Website_init_def Let_def split: prod.splits)

text \<open>
  Claim C1. When static retrieval raises, the constructor runs dynamic retrieval and
  nothing else: its outcome is the outcome of dynamic retrieval, and its trace is the
  one HTTP request followed by the trace of dynamic retrieval, with exactly one start of
  the browser. Once the browser has started, \<open>quit\<close> is called exactly once and is the last
  call, whether dynamic retrieval returns a website or raises (when the browser cannot
  be started there is no driver, and the trace ends with the failed start). An
  exception of dynamic retrieval is the exception of the constructor: nothing catches
  it and nothing is tried after it.
\<close>

theorem static_failure_falls_back_once:
  "fst (fetch_static env (normalize_url u)) = Inl e \<Longrightarrow>
     Website_init env u =
       (fst (fetch_dynamic env (normalize_url u)),
        snd (fetch_static env (normalize_url u)) @ snd (fetch_dynamic env (normalize_url u)))
     \<and> count_list (snd (Website_init env u)) (ChromeLaunch chrome_options) = 1
     \<and> count_list (snd (Website_init env u)) (HttpGet (normalize_url u)) = 1
     \<and> (webdriver_Chrome env chrome_options = Inr () \<longrightarrow>
          last (snd (Website_init env u)) = DriverQuit
          \<and> count_list (snd (Website_init env u)) DriverQuit = 1)
     \<and> (\<forall>e'. webdriver_Chrome env chrome_options = Inl e' \<longrightarrow>
          Website_init env u =
            (Inl e', [HttpGet (normalize_url u), ChromeLaunch chrome_options]))
     \<and> (\<forall>e'. fst (fetch_dynamic env (normalize_url u)) = Inl e' \<longrightarrow>
          fst (Website_init env u) = Inl e')"
proof -
  assume a: "fst (fetch_static env (normalize_url u)) = Inl e"
  let ?x = "normalize_url u"
  note init = Website_init_static_fails [OF a]
  have 1: "Website_init env u =
       (fst (fetch_dynamic env ?x), snd (fetch_static env ?x) @ snd (fetch_dynamic env ?x))"
    by (simp add: init fetch_static_trace)
  have 2: "count_list (snd (Website_init env u)) (ChromeLaunch chrome_options) = 1"
    by (simp add: init fetch_dynamic_one_launch)
  have 3: "count_list (snd (Website_init env u)) (HttpGet ?x) = 1"
    by (simp add: init count_list_absent fetch_dynamic_no_get)
  have 4: "webdriver_Chrome env chrome_options = Inr () \<longrightarrow>
          last (snd (Website_init env u)) = DriverQuit
          \<and> count_list (snd (Website_init env u)) DriverQuit = 1"
  proof
    assume l: "webdriver_Chrome env chrome_options = Inr ()"
    from fetch_dynamic_quit [OF l, of ?x] fetch_dynamic_launched [OF l, of ?x]
    show "last (snd (Website_init env u)) = DriverQuit
          \<and> count_list (snd (Website_init env u)) DriverQuit = 1"
      by (simp add: init)
  qed
  have 5: "\<forall>e'. webdriver_Chrome env chrome_options = Inl e' \<longrightarrow>
          Website_init env u = (Inl e', [HttpGet ?x, ChromeLaunch chrome_options])"
    by (simp add: init fetch_dynamic_not_launched)
  have 6: "\<forall>e'. fst (fetch_dynamic env ?x) = Inl e' \<longrightarrow> fst (Website_init env u) = Inl e'"
    by (simp add: init)
  from 1 2 3 4 5 6 show ?thesis by blast
qed

lemma normalize_example: "normalize_url ''example.com'' = ''https://example.com''"
  by (simp add: normalize_url_def startswith_any_def startswith_def)

lemma static_down:
  "fetch_static world_static_down x =
     (Inl (Exception ''ConnectionError'' ''connection refused''), [HttpGet x])"
  by (simp add: fetch_static_def world_static_down_def world_online_def)

lemma static_offline:
  "fetch_static world_offline x =
     (Inl (Exception ''ConnectionError'' ''connection refused''), [HttpGet x])"
  by (simp add: fetch_static_def world_offline_def world_static_down_def world_online_def)

lemma static_no_browser:
  "fetch_static world_no_browser x =
     (Inl (Exception ''ConnectionError'' ''connection refused''), [HttpGet x])"
  by (simp add: fetch_static_def world_no_browser_def world_static_down_def world_online_def)

lemma dynamic_offline:
  "fetch_dynamic world_offline x =
     (Inl (Exception ''WebDriverException'' ''net::ERR_INTERNET_DISCONNECTED''),
      [ChromeLaunch chrome_options, DriverGet x, DriverQuit])"
  by (simp add: fetch_dynamic_def fetch_dynamic_try_def world_offline_def
      world_static_down_def world_online_def)

lemma dynamic_static_down:
  "fetch_dynamic world_static_down ''https://example.com'' =
     (Inr website_example,
      [ChromeLaunch chrome_options, DriverGet ''https://example.com'', Sleep 5, PageSource,
       DriverQuit])"
  by (simp add: fetch_dynamic_def fetch_dynamic_try_def world_static_down_def world_online_def
      process_page_example)

theorem static_failure_falls_back_once_witness:
  "fst (fetch_static world_offline (normalize_url ''example.com'')) =
      Inl (Exception ''ConnectionError'' ''connection refused'')
   \<and> webdriver_Chrome world_offline chrome_options = Inr ()
   \<and> fst (fetch_dynamic world_offline (normalize_url ''example.com'')) =
        Inl (Exception ''WebDriverException'' ''net::ERR_INTERNET_DISCONNECTED'')
   \<and> fst (Website_init world_offline ''example.com'') =
        Inl (Exception ''WebDriverException'' ''net::ERR_INTERNET_DISCONNECTED'')
   \<and> last (snd (Website_init world_offline ''example.com'')) = DriverQuit
   \<and> count_list (snd (Website_init world_offline ''example.com'')) DriverQuit = 1
   \<and> count_list (snd (Website_init world_offline ''example.com'')) (ChromeLaunch chrome_options) = 1
   \<and> fst (fetch_static world_no_browser (normalize_url ''example.com'')) =
        Inl (Exception ''ConnectionError'' ''connection refused'')
   \<and> webdriver_Chrome world_no_browser chrome_options =
        Inl (Exception ''WebDriverException'' ''chrome not found'')
   \<and> Website_init world_no_browser ''example.com'' =
        (Inl (Exception ''WebDriverException'' ''chrome not found''),
         [HttpGet ''https://example.com'', ChromeLaunch chrome_options])"
proof -
  let ?down = "Exception ''ConnectionError'' ''connection refused''"
  have s1: "fst (fetch_static world_offline (normalize_url ''example.com'')) = Inl ?down"
    by (simp add: static_offline)
  have s2: "fst (fetch_static world_no_browser (normalize_url ''example.com'')) = Inl ?down"
    by (simp add: static_no_browser)
  have l1: "webdriver_Chrome world_offline chrome_options = Inr ()"
    by (simp add: world_offline_def world_static_down_def world_online_def)
  have l2: "webdriver_Chrome world_no_browser chrome_options =
        Inl (Exception ''WebDriverException'' ''chrome not found'')"
    by (simp add: world_no_browser_def)
  have d1: "fst (fetch_dynamic world_offline (normalize_url ''example.com'')) =
        Inl (Exception ''WebDriverException'' ''net::ERR_INTERNET_DISCONNECTED'')"
    by (simp add: dynamic_offline)
  from static_failure_falls_back_once [OF s1] l1 d1
  have a: "fst (Website_init world_offline ''example.com'') =
        Inl (Exception ''WebDriverException'' ''net::ERR_INTERNET_DISCONNECTED'')
   \<and> last (snd (Website_init world_offline ''example.com'')) = DriverQuit
   \<and> count_list (snd (Website_init world_offline ''example.com'')) DriverQuit = 1
   \<and> count_list (snd (Website_init world_offline ''example.com'')) (ChromeLaunch chrome_options) = 1"
    by blast
  from static_failure_falls_back_once [OF s2] l2
  have b: "Website_init world_no_browser ''example.com'' =
        (Inl (Exception ''WebDriverException'' ''chrome not found''),
         [HttpGet (normalize_url ''example.com''), ChromeLaunch chrome_options])"
    by blast
  from a b s1 s2 l1 l2 d1 show ?thesis
    by (simp add: normalize_example)
qed

text \<open>
  Claim C6. The constructor raises exactly when static retrieval raises and dynamic
  retrieval raises too; the exception is then the one of dynamic retrieval. In every
  other case it returns a website, whose \<open>url\<close> is the normalised input.
\<close>

theorem Website_init_fails_iff_both_fail:
  "(isl (fst (Website_init env u)) \<longleftrightarrow>
      isl (fst (fetch_static env (normalize_url u)))
      \<and> isl (fst (fetch_dynamic env (normalize_url u))))
   \<and> (\<forall>e. fst (Website_init env u) = Inl e \<longrightarrow>
         fst (fetch_dynamic env (normalize_url u)) = Inl e)
   \<and> (\<not> isl (fst (Website_init env u)) \<longrightarrow>
         (\<exists>w. fst (Website_init env u) = Inr w \<and> url w = normalize_url u))"
proof (cases "fst (fetch_static env (normalize_url u))")
  case (Inl e)
  note init = Website_init_static_fails [OF Inl]
  have "url w = normalize_url u" if "fst (fetch_dynamic env (normalize_url u)) = Inr w" for w
    using that by (rule fetch_dynamic_url)
  with Inl show ?thesis
    by (cases "fst (fetch_dynamic env (normalize_url u))") (simp_all add: init)
next
  case (Inr w)
  note init = Website_init_static_ok [OF Inr]
  have "url w = normalize_url u"
    using Inr by (rule fetch_static_url)
  with Inr show ?thesis by (simp add: init)
qed

lemma static_online:
  "fetch_static world_online ''https://example.com'' =
     (Inr website_example, [HttpGet ''https://example.com''])"
  by (simp add: fetch_static_def world_online_def process_page_example)

lemma static_not_found:
  "fetch_static world_not_found ''https://example.com'' =
     (Inr website_example, [HttpGet ''https://example.com''])"
  by (simp add: fetch_static_def world_not_found_def world_online_def process_page_example)

theorem Website_init_fails_iff_both_fail_witness:
  "isl (fst (fetch_static world_offline (normalize_url ''example.com'')))
   \<and> isl (fst (fetch_dynamic world_offline (normalize_url ''example.com'')))
   \<and> fst (Website_init world_offline ''example.com'') =
        Inl (Exception ''WebDriverException'' ''net::ERR_INTERNET_DISCONNECTED'')
   \<and> isl (fst (fetch_static world_static_down (normalize_url ''example.com'')))
   \<and> \<not> isl (fst (fetch_dynamic world_static_down (normalize_url ''example.com'')))
   \<and> \<not> isl (fst (Website_init world_static_down ''example.com''))
   \<and> \<not> isl (fst (fetch_static world_online (normalize_url ''example.com'')))
   \<and> \<not> isl (fst (Website_init world_online ''example.com''))
   \<and> (\<exists>w. fst (Website_init world_online ''example.com'') = Inr w
            \<and> url w = ''https://example.com'')"
proof -
  have f1: "isl (fst (fetch_static world_offline (normalize_url ''example.com'')))"
    and f2: "isl (fst (fetch_dynamic world_offline (normalize_url ''example.com'')))"
    and f2': "fst (fetch_dynamic world_offline (normalize_url ''example.com'')) =
        Inl (Exception ''WebDriverException'' ''net::ERR_INTERNET_DISCONNECTED'')"
    and f3: "isl (fst (fetch_static world_static_down (normalize_url ''example.com'')))"
    and f4: "\<not> isl (fst (fetch_dynamic world_static_down (normalize_url ''example.com'')))"
    and f5: "\<not> isl (fst (fetch_static world_online (normalize_url ''example.com'')))"
    by (simp_all add: static_offline dynamic_offline static_down dynamic_static_down static_online
        normalize_example)
  from Website_init_fails_iff_both_fail [of world_offline "''example.com''"] f1 f2
  have "isl (fst (Website_init world_offline ''example.com''))" by blast
  then obtain e where e: "fst (Website_init world_offline ''example.com'') = Inl e"
    by (cases "fst (Website_init world_offline ''example.com'')") simp_all
  with Website_init_fails_iff_both_fail [of world_offline "''example.com''"] f2'
  have a: "fst (Website_init world_offline ''example.com'') =
        Inl (Exception ''WebDriverException'' ''net::ERR_INTERNET_DISCONNECTED'')"
    by simp
  from Website_init_fails_iff_both_fail [of world_static_down "''example.com''"] f4
  have b: "\<not> isl (fst (Website_init world_static_down ''example.com''))" by blast
  from Website_init_fails_iff_both_fail [of world_online "''example.com''"] f5
  have c: "\<not> isl (fst (Website_init world_online ''example.com''))" by blast
  with Website_init_fails_iff_both_fail [of world_online "''example.com''"]
  have d: "\<exists>w. fst (Website_init world_online ''example.com'') = Inr w
            \<and> url w = ''https://example.com''"
    by (simp add: normalize_example)
  from a b c d f1 f2 f3 f4 f5 show ?thesis by blast
qed

section \<open>The status code and the fallback\<close>

lemma process_content_raises_iff: "isl (process_content d u sp) \<longleftrightarrow> \<not> title_fits d sp"
proof (cases "title_fits d sp")
  case True
  show ?thesis
  proof (cases "soup_find ''title'' sp")
    case None
    with True show ?thesis by (simp add: process_content_def Let_def)
  next
    case (Some t)
    then obtain i cs where t: "t = Tag i ''title'' cs"
      using soup_find_tag by blast
    from True Some have "chain_length t \<le> d" by (simp add: title_fits_def)
    with t have "tag_string d t = Inr (own_string (chain_end t))"
      by (simp add: tag_string_fits)
    with Some True show ?thesis by (simp add: process_content_def Let_def)
  qed
next
  case False
  then show ?thesis by (simp add: process_content_overflow)
qed

lemma fetch_static_ok:
  "requests_get env x = Inr response \<Longrightarrow> BeautifulSoup env (Bytes (content response)) = Inr sp
   \<Longrightarrow> process_content (recursion_limit env) x sp = Inr w
   \<Longrightarrow> fetch_static env x = (Inr w, [HttpGet x])"
  by (simp add: fetch_static_def)

lemma fetch_static_status:
  "fetch_static (with_status_code c env) x = fetch_static env x"
  by (simp add: fetch_static_def with_status_code_def split: sum.splits)

lemma launch_iff_static_fails:
  "ChromeLaunch chrome_options \<in> set (snd (Website_init env u)) \<longleftrightarrow>
     isl (fst (fetch_static env (normalize_url u)))"
proof (cases "fst (fetch_static env (normalize_url u))")
  case (Inl e)
  have "ChromeLaunch chrome_options \<in> set (snd (fetch_dynamic env (normalize_url u)))"
    using fetch_dynamic_one_launch [of env "normalize_url u"] count_list_absent by fastforce
  with Inl show ?thesis by (simp add: Website_init_static_fails [OF Inl])
next
  case (Inr w)
  then show ?thesis by (simp add: Website_init_static_ok [OF Inr])
qed

lemma static_fails_iff:
  "isl (fst (fetch_static env x)) \<longleftrightarrow>
     (case requests_get env x of
        Inl e \<Rightarrow> True
      | Inr response \<Rightarrow>
          (case BeautifulSoup env (Bytes (content response)) of
             Inl e \<Rightarrow> True
           | Inr sp \<Rightarrow> \<not> title_fits (recursion_limit env) sp))"
proof -
  have "isl (fst (fetch_static env x)) \<longleftrightarrow>
     (case requests_get env x of
        Inl e \<Rightarrow> True
      | Inr response \<Rightarrow>
          (case BeautifulSoup env (Bytes (content response)) of
             Inl e \<Rightarrow> True
           | Inr sp \<Rightarrow> isl (process_content (recursion_limit env) x sp)))"
    by (simp add: fetch_static_def split: sum.splits)
  then show ?thesis by (simp only: process_content_raises_iff)
qed

lemma Website_init_deep:
  "Website_init world_deep ''example.com'' =
     (Inr website_example,
      [HttpGet ''https://example.com'', ChromeLaunch chrome_options,
       DriverGet ''https://example.com'', Sleep 5, PageSource, DriverQuit])"
proof -
  have "fetch_static world_deep ''https://example.com'' =
          (Inl RecursionError, [HttpGet ''https://example.com''])"
    by (simp add: fetch_static_def world_deep_def world_online_def page_deep_overflow)
  then have "fst (fetch_static world_deep (normalize_url ''example.com'')) = Inl RecursionError"
    by (simp add: normalize_example)
  from Website_init_static_fails [OF this] show ?thesis
    by (simp add: normalize_example fetch_dynamic_def fetch_dynamic_try_def world_deep_def
        world_online_def process_page_example)
qed

text \<open>
  Claim C7 fails as stated: here the GET returns a response and the parser returns a
  tree, and the browser is started all the same, because \<open>_process_content\<close> raised
  \<open>RecursionError\<close> inside \<open>_fetch_static\<close> on the title of the page.
\<close>

theorem static_fallback_counterexample:
  "requests_get world_deep ''https://example.com'' = Inr \<lparr>status_code = 200, content = ''<html>''\<rparr>
   \<and> BeautifulSoup world_deep (Bytes ''<html>'') = Inr (page_deep 1000)
   \<and> Website_init world_deep ''example.com'' =
        (Inr website_example,
         [HttpGet ''https://example.com'', ChromeLaunch chrome_options,
          DriverGet ''https://example.com'', Sleep 5, PageSource, DriverQuit])"
  by (simp add: Website_init_deep) (simp add: world_deep_def world_online_def)

text \<open>
  Claim C7, amended. No status code is checked: when the GET returns a response, its
  body parses and the title lookup of the page fits under the recursion limit, the
  constructor returns the processed page after the one HTTP request, whatever the
  status code, and giving all responses another status code changes neither outcome nor
  trace. The browser is started exactly when the GET raised, or the parser raised on the
  body, or the processing of the parsed page raised (the \<open>RecursionError\<close> of a title
  lookup that does not fit).
\<close>

theorem static_fallback_triggers:
  "(\<forall>response sp.
      requests_get env (normalize_url u) = Inr response
      \<and> BeautifulSoup env (Bytes (content response)) = Inr sp
      \<and> title_fits (recursion_limit env) sp \<longrightarrow>
      (\<exists>w. process_content (recursion_limit env) (normalize_url u) sp = Inr w
            \<and> Website_init env u = (Inr w, [HttpGet (normalize_url u)])))
   \<and> Website_init (with_status_code c env) u = Website_init env u
   \<and> (ChromeLaunch chrome_options \<in> set (snd (Website_init env u)) \<longleftrightarrow>
        (case requests_get env (normalize_url u) of
           Inl e \<Rightarrow> True
         | Inr response \<Rightarrow>
             (case BeautifulSoup env (Bytes (content response)) of
                Inl e \<Rightarrow> True
              | Inr sp \<Rightarrow> \<not> title_fits (recursion_limit env) sp)))"
proof -
  have 1: "\<exists>w. process_content (recursion_limit env) (normalize_url u) sp = Inr w
            \<and> Website_init env u = (Inr w, [HttpGet (normalize_url u)])"
    if get: "requests_get env (normalize_url u) = Inr response"
      and parse: "BeautifulSoup env (Bytes (content response)) = Inr sp"
      and fits: "title_fits (recursion_limit env) sp" for response sp
  proof -
    from fits process_content_raises_iff [of "recursion_limit env" "normalize_url u" sp]
    obtain w where w: "process_content (recursion_limit env) (normalize_url u) sp = Inr w"
      by (cases "process_content (recursion_limit env) (normalize_url u) sp") simp_all
    from fetch_static_ok [OF get parse w] have "fst (fetch_static env (normalize_url u)) = Inr w"
      by simp
    from Website_init_static_ok [OF this] w show ?thesis by simp
  qed
  have dtry: "fetch_dynamic_try (with_status_code c env) x = fetch_dynamic_try env x" for x
    by (simp add: fetch_dynamic_try_def with_status_code_def cong: sum.case_cong)
  have "webdriver_Chrome (with_status_code c env) = webdriver_Chrome env"
    and "driver_quit (with_status_code c env) = driver_quit env"
    by (simp_all add: with_status_code_def)
  then have dyn: "fetch_dynamic (with_status_code c env) x = fetch_dynamic env x" for x
    by (simp add: fetch_dynamic_def dtry cong: sum.case_cong)
  have 2: "Website_init (with_status_code c env) u = Website_init env u"
    by (simp add: Website_init_def Let_def fetch_static_status dyn
        cong: sum.case_cong prod.case_cong)
  have 3: "ChromeLaunch chrome_options \<in> set (snd (Website_init env u)) \<longleftrightarrow>
        (case requests_get env (normalize_url u) of
           Inl e \<Rightarrow> True
         | Inr response \<Rightarrow>
             (case BeautifulSoup env (Bytes (content response)) of
                Inl e \<Rightarrow> True
              | Inr sp \<Rightarrow> \<not> title_fits (recursion_limit env) sp))"
    by (simp only: launch_iff_static_fails static_fails_iff)
  from 1 2 3 show ?thesis by blast
qed

theorem static_fallback_triggers_witness:
  "requests_get world_not_found (normalize_url ''example.com'') =
      Inr \<lparr>status_code = 404, content = ''<html>''\<rparr>
   \<and> BeautifulSoup world_not_found (Bytes ''<html>'') = Inr page_example
   \<and> title_fits (recursion_limit world_not_found) page_example
   \<and> Website_init world_not_found ''example.com'' =
        (Inr website_example, [HttpGet ''https://example.com''])"
proof -
  have g: "requests_get world_not_found (normalize_url ''example.com'') =
      Inr \<lparr>status_code = 404, content = ''<html>''\<rparr>"
    by (simp add: world_not_found_def)
  have b: "BeautifulSoup world_not_found (Bytes (content \<lparr>status_code = 404, content = ''<html>''\<rparr>))
      = Inr page_example"
    by (simp add: world_not_found_def world_online_def)
  have f: "title_fits (recursion_limit world_not_found) page_example"
    by (simp add: title_fits_def title_page_example)
  from static_fallback_triggers [of world_not_found "''example.com''"] g b f
  obtain w where "process_content (recursion_limit world_not_found) (normalize_url ''example.com'')
        page_example = Inr w"
    and "Website_init world_not_found ''example.com'' = (Inr w, [HttpGet (normalize_url ''example.com'')])"
    by blast
  then have "Website_init world_not_found ''example.com'' =
        (Inr website_example, [HttpGet ''https://example.com''])"
    by (simp add: normalize_example process_page_example)
  with g b f show ?thesis by simp
qed

section \<open>The request\<close>

lemma summarize_unfold:
  "fst (Website_init env u) = Inr website \<Longrightarrow>
   summarize env u =
     (case messages_create env (summary_request website) of
        Inl e \<Rightarrow> Inl e
      | Inr (Message []) \<Rightarrow> Inl IndexError
      | Inr (Message (TextBlock t # rest)) \<Rightarrow> Inr t,
      snd (Website_init env u) @ [MessagesCreate (summary_request website)])"
  by (cases "Website_init env u")
    (simp add: summarize_def summary_request_def Let_def
      split: sum.splits Message.splits list.splits TextBlock.splits)

lemma summarize_no_website:
  "fst (Website_init env u) = Inl e \<Longrightarrow> summarize env u = (Inl e, snd (Website_init env u))"
  by (cases "Website_init env u") (simp add: summarize_def)

lemma Website_init_online:
  "Website_init world_online ''example.com'' =
     (Inr website_example, [HttpGet ''https://example.com''])"
  using Website_init_static_ok [of world_online "''example.com''"]
  by (simp add: static_online normalize_example)

lemma Website_init_empty_answer:
  "Website_init world_empty_answer ''example.com'' =
     (Inr website_example, [HttpGet ''https://example.com''])"
proof -
  have "fetch_static world_empty_answer ''https://example.com'' =
          (Inr website_example, [HttpGet ''https://example.com''])"
    by (simp add: fetch_static_def world_empty_answer_def world_online_def process_page_example)
  then show ?thesis
    using Website_init_static_ok [of world_empty_answer "''example.com''"]
    by (simp add: normalize_example)
qed

text \<open>
  Claim C5 fails as stated: with an empty content list the exception that leaves
  \<open>summarize\<close> is the \<open>IndexError\<close> of the indexing \<open>response.content[0]\<close>, not an
  \<open>APIError\<close>; the source makes no check of the list.
\<close>

theorem summarize_empty_content_counterexample:
  "fst (summarize world_empty_answer ''example.com'') =
     Inl (Exception ''IndexError'' ''list index out of range'')
   \<and> class_name (Exception ''IndexError'' ''list index out of range'') \<noteq> ''APIError''"
proof -
  have "fst (Website_init world_empty_answer ''example.com'') =
          Inr website_example"
    by (simp add: Website_init_empty_answer)
  from summarize_unfold [OF this] show ?thesis
    by (simp add: world_empty_answer_def IndexError_def)
qed

text \<open>
  Claim C5, amended. When the website was built and the service answered with a content
  list, \<open>summarize\<close> returns the text of the first block of a non-empty list; on an
  empty list the indexing raises \<open>IndexError\<close>, which leaves \<open>summarize\<close> unchecked
  (there is no empty-string result), and \<open>main\<close> prints
  \<open>Error: list index out of range\<close> and exits with code 1.
\<close>

theorem summarize_first_block:
  "fst (Website_init env u) = Inr website \<Longrightarrow>
   messages_create env (summary_request website) = Inr (Message blocks) \<Longrightarrow>
     (\<forall>t rest. blocks = TextBlock t # rest \<longrightarrow> fst (summarize env u) = Inr t)
     \<and> (blocks = [] \<longrightarrow>
          fst (summarize env u) = Inl (Exception ''IndexError'' ''list index out of range'')
          \<and> fst (main env [script, u]) = snd (summarize env u) @ [Print ''Error: list index out of range'']
          \<and> snd (main env [script, u]) = 1)"
proof -
  assume w: "fst (Website_init env u) = Inr website"
    and m: "messages_create env (summary_request website) = Inr (Message blocks)"
  have 1: "fst (summarize env u) = Inr t" if "blocks = TextBlock t # rest" for t rest
    using that m by (simp add: summarize_unfold [OF w])
  have 2: "fst (summarize env u) = Inl (Exception ''IndexError'' ''list index out of range'')"
    if "blocks = []"
    using that m by (simp add: summarize_unfold [OF w] IndexError_def)
  have 3: "main env [script, u] = (snd (summarize env u) @ [Print ''Error: list index out of range''], 1)"
    if "blocks = []"
    using 2 [OF that]
    by (cases "summarize env u") (simp add: main_def)
  from 1 2 3 show ?thesis by simp
qed

lemma messages_online:
  "messages_create world_online r = Inr (Message [TextBlock ''# Summary''])"
  by (simp add: world_online_def)

theorem summarize_first_block_witness:
  "fst (Website_init world_online ''example.com'') =
      Inr website_example
   \<and> messages_create world_online (summary_request website_example)
        = Inr (Message [TextBlock ''# Summary''])
   \<and> fst (summarize world_online ''example.com'') = Inr ''# Summary''
   \<and> fst (Website_init world_empty_answer ''example.com'') =
      Inr website_example
   \<and> messages_create world_empty_answer (summary_request website_example)
        = Inr (Message [])
   \<and> snd (main world_empty_answer [''summarize.py'', ''example.com'']) = 1"
proof -
  let ?w = "website_example"
  have w1: "fst (Website_init world_online ''example.com'') = Inr ?w"
    by (simp add: Website_init_online)
  have w2: "fst (Website_init world_empty_answer ''example.com'') = Inr ?w"
    by (simp add: Website_init_empty_answer)
  have m1: "messages_create world_online (summary_request ?w) = Inr (Message [TextBlock ''# Summary''])"
    by (rule messages_online)
  have m2: "messages_create world_empty_answer (summary_request ?w) = Inr (Message [])"
    by (simp add: world_empty_answer_def)
  from summarize_first_block [OF w1 m1]
  have a: "fst (summarize world_online ''example.com'') = Inr ''# Summary''" by simp
  from summarize_first_block [OF w2 m2, of "''summarize.py''"]
  have b: "snd (main world_empty_answer [''summarize.py'', ''example.com'']) = 1" by simp
  from a b w1 w2 m1 m2 show ?thesis by simp
qed

section \<open>The command line\<close>

text \<open>
  Claim C9. With a number of arguments other than one (\<open>len(sys.argv) != 2\<close>) the program
  prints the usage line, the two examples and the reminder of the API key, does nothing
  but print, and exits with code 1. With one argument it runs \<open>summarize\<close> on it: on
  success it prints the summary and exits with code 0; on an exception \<open>e\<close> it prints
  \<open>Error: \<close> followed by \<open>str(e)\<close> and exits with code 1.
\<close>

theorem main_exit_codes:
  "(length argv \<noteq> 2 \<longrightarrow>
      main env argv =
        ([Print ''Usage: python summarize.py <url>'',
          Print ''Examples:'',
          Print ''  python summarize.py cnn.com'',
          Print ''  python summarize.py https://www.bbc.com'',
          Print (newline # ''Note: Make sure you have set the ANTHROPIC_API_KEY environment variable'')],
         1)
      \<and> list_all is_Print (fst (main env argv)))
   \<and> (length argv = 2 \<longrightarrow>
        (\<forall>summary. fst (summarize env (argv ! 1)) = Inr summary \<longrightarrow>
           main env argv = (snd (summarize env (argv ! 1)) @ [Print summary], 0))
        \<and> (\<forall>e. fst (summarize env (argv ! 1)) = Inl e \<longrightarrow>
             main env argv =
               (snd (summarize env (argv ! 1)) @ [Print (''Error: '' @ str_of e)], 1)))"
proof -
  have 1: "main env argv = (usage, 1)" if "length argv \<noteq> 2"
    using that by (simp add: main_def)
  have 2: "main env argv = (snd (summarize env (argv ! 1)) @ [Print summary], 0)"
    if "length argv = 2" and "fst (summarize env (argv ! 1)) = Inr summary" for summary
    using that by (cases "summarize env (argv ! 1)") (simp add: main_def)
  have 3: "main env argv = (snd (summarize env (argv ! 1)) @ [Print (''Error: '' @ str_of e)], 1)"
    if "length argv = 2" and "fst (summarize env (argv ! 1)) = Inl e" for e
    using that by (cases "summarize env (argv ! 1)") (simp add: main_def)
  from 1 2 3 show ?thesis by (simp add: usage_def)
qed

lemma summarize_online:
  "summarize world_online ''example.com'' =
     (Inr ''# Summary'',
      [HttpGet ''https://example.com'',
       MessagesCreate (summary_request website_example)])"
proof -
  have "fst (Website_init world_online ''example.com'') =
          Inr website_example"
    by (simp add: Website_init_online)
  from summarize_unfold [OF this] show ?thesis
    by (simp add: messages_online Website_init_online)
qed

lemma summarize_offline:
  "summarize world_offline ''example.com'' =
     (Inl (Exception ''WebDriverException'' ''net::ERR_INTERNET_DISCONNECTED''),
      [HttpGet ''https://example.com'', ChromeLaunch chrome_options,
       DriverGet ''https://example.com'', DriverQuit])"
proof -
  have "fst (fetch_static world_offline (normalize_url ''example.com'')) =
          Inl (Exception ''ConnectionError'' ''connection refused'')"
    by (simp add: static_offline)
  from Website_init_static_fails [OF this]
  have init: "Website_init world_offline ''example.com'' =
     (Inl (Exception ''WebDriverException'' ''net::ERR_INTERNET_DISCONNECTED''),
      [HttpGet ''https://example.com'', ChromeLaunch chrome_options,
       DriverGet ''https://example.com'', DriverQuit])"
    by (simp add: dynamic_offline normalize_example)
  then have "fst (Website_init world_offline ''example.com'') =
      Inl (Exception ''WebDriverException'' ''net::ERR_INTERNET_DISCONNECTED'')"
    by simp
  from summarize_no_website [OF this] show ?thesis by (simp add: init)
qed

theorem main_exit_codes_witness:
  "length [''summarize.py''] \<noteq> 2
   \<and> snd (main world_online [''summarize.py'']) = 1
   \<and> list_all is_Print (fst (main world_online [''summarize.py'']))
   \<and> length [''summarize.py'', ''example.com''] = 2
   \<and> fst (summarize world_online ([''summarize.py'', ''example.com''] ! 1)) = Inr ''# Summary''
   \<and> main world_online [''summarize.py'', ''example.com''] =
        ([HttpGet ''https://example.com'',
          MessagesCreate (summary_request website_example),
          Print ''# Summary''], 0)
   \<and> fst (summarize world_offline ([''summarize.py'', ''example.com''] ! 1)) =
        Inl (Exception ''WebDriverException'' ''net::ERR_INTERNET_DISCONNECTED'')
   \<and> main world_offline [''summarize.py'', ''example.com''] =
        ([HttpGet ''https://example.com'', ChromeLaunch chrome_options,
          DriverGet ''https://example.com'', DriverQuit,
          Print ''Error: net::ERR_INTERNET_DISCONNECTED''], 1)"
proof -
  have l1: "length [''summarize.py''] \<noteq> 2" by simp
  have l2: "length [''summarize.py'', ''example.com''] = 2" by simp
  have s1: "fst (summarize world_online ([''summarize.py'', ''example.com''] ! 1)) = Inr ''# Summary''"
    by (simp add: summarize_online)
  have s2: "fst (summarize world_offline ([''summarize.py'', ''example.com''] ! 1)) =
        Inl (Exception ''WebDriverException'' ''net::ERR_INTERNET_DISCONNECTED'')"
    by (simp add: summarize_offline)
  from main_exit_codes [of "[''summarize.py'']" world_online] l1
  have a: "snd (main world_online [''summarize.py'']) = 1
     \<and> list_all is_Print (fst (main world_online [''summarize.py'']))"
    by simp
  from main_exit_codes [of "[''summarize.py'', ''example.com'']" world_online] l2 s1
  have b: "main world_online [''summarize.py'', ''example.com''] =
        (snd (summarize world_online ([''summarize.py'', ''example.com''] ! 1)) @ [Print ''# Summary''], 0)"
    by blast
  from main_exit_codes [of "[''summarize.py'', ''example.com'']" world_offline] l2 s2
  have c: "main world_offline [''summarize.py'', ''example.com''] =
        (snd (summarize world_offline ([''summarize.py'', ''example.com''] ! 1))
           @ [Print (''Error: '' @ str_of (Exception ''WebDriverException'' ''net::ERR_INTERNET_DISCONNECTED''))], 1)"
    by blast
  from a b c l1 l2 s1 s2 show ?thesis
    by (simp add: summarize_online summarize_offline)
qed

end
